theory Spec2Isabelle
  imports Main "HOL-Library.Char_ord"
begin

section \<open>Python values used by agent-deployer\<close>

text \<open>
  The program is Python: \<^verbatim>\<open>agent_deployer/deploy.py\<close> and \<^verbatim>\<open>agent_deployer/cli.py\<close>.
  Text is modelled as \<^typ>\<open>string\<close>; a character stands for the code point of the same
  number, so the model covers text whose code points are below 256.
\<close>

subsection \<open>Exceptions\<close>

text \<open>
  One constructor per exception the two modules can raise, with the payload the handler
  in \<^verbatim>\<open>main\<close> prints. \<open>InvalidPlaceholder\<close> and \<open>UnpackError\<close> are both
  \<^verbatim>\<open>ValueError\<close> in Python (raised by \<^verbatim>\<open>string.Template\<close> and by the tuple
  assignment \<^verbatim>\<open>key, value = ...\<close>); they are kept apart from the two \<^verbatim>\<open>ValueError\<close>s
  the program raises itself, which carry their message.
\<close>

datatype error =
    ValueError string
  | RuntimeError string
  | KeyError string
  | InvalidPlaceholder
  | UnpackError
  | IndexError
  | FileNotFoundError string
  | EOFError
  | SystemExit int

subsection \<open>str() of an integer\<close>

fun digits :: "nat \<Rightarrow> string" where
  "digits n = (if n < 10 then [char_of (48 + n)]
               else digits (n div 10) @ [char_of (48 + n mod 10)])"

declare digits.simps [simp del]

definition str_int :: "int \<Rightarrow> string" where
  "str_int i = (if i < 0 then CHR ''-'' # digits (nat (- i)) else digits (nat i))"

subsection \<open>string.Template\<close>

text \<open>
  \<^verbatim>\<open>Template.pattern\<close> is, with the flag IGNORECASE,
  \<^verbatim>\<open>\$(?:(?P<escaped>\$)|(?P<named>[_a-z][_a-z0-9]*)|{(?P<braced>[_a-z][_a-z0-9]*)}|(?P<invalid>))\<close>
  and \<^verbatim>\<open>substitute\<close> is \<^verbatim>\<open>pattern.sub(convert, template)\<close>: the matches are
  found from left to right, the text between them is copied, and \<^verbatim>\<open>convert\<close> is
  called on each match in that order, so the first exception it raises ends the call.
\<close>

definition is_id_start :: "char \<Rightarrow> bool" where
  "is_id_start c \<longleftrightarrow>
     c = CHR ''_'' \<or> (CHR ''a'' \<le> c \<and> c \<le> CHR ''z'') \<or> (CHR ''A'' \<le> c \<and> c \<le> CHR ''Z'')"

definition is_id_char :: "char \<Rightarrow> bool" where
  "is_id_char c \<longleftrightarrow> is_id_start c \<or> (CHR ''0'' \<le> c \<and> c \<le> CHR ''9'')"

datatype token =
    Text string
  | Escaped
  | Named string
  | Braced string
  | Invalid

text \<open>
  \<open>after_delimiter cs\<close> is the match of the alternatives at the text \<open>cs\<close> that
  follows a \<open>$\<close>, in the order the pattern lists them, with the text left after the
  match.
\<close>

definition braced :: "string \<Rightarrow> (string \<times> string) option" where
  "braced ds =
     (case ds of
        [] \<Rightarrow> None
      | e # es \<Rightarrow>
          if is_id_start e then
            (case dropWhile is_id_char es of
               [] \<Rightarrow> None
             | r # rs \<Rightarrow> if r = CHR ''}'' then Some (e # takeWhile is_id_char es, rs) else None)
          else None)"

definition after_delimiter :: "string \<Rightarrow> token \<times> string" where
  "after_delimiter cs =
     (case cs of
        [] \<Rightarrow> (Invalid, [])
      | d # ds \<Rightarrow>
          if d = CHR ''$'' then (Escaped, ds)
          else if is_id_start d then (Named (d # takeWhile is_id_char ds), dropWhile is_id_char ds)
          else if d = CHR ''{'' then
            (case braced ds of Some (k, rest) \<Rightarrow> (Braced k, rest) | None \<Rightarrow> (Invalid, cs))
          else (Invalid, cs))"

lemma length_braced: "braced ds = Some (k, rest) \<Longrightarrow> length rest < length ds"
proof -
  have "length (dropWhile is_id_char es) \<le> length es" for es
    by (rule length_dropWhile_le)
  then have "dropWhile is_id_char es = r # rs \<Longrightarrow> length rs < length es" for es r rs
    by (metis Suc_le_lessD length_Cons)
  then show "braced ds = Some (k, rest) \<Longrightarrow> length rest < length ds"
    by (auto simp: braced_def less_Suc_eq split: list.splits if_splits)
qed

lemma length_after_delimiter: "length (snd (after_delimiter cs)) \<le> length cs"
proof (cases cs)
  case Nil
  then show ?thesis by (simp add: after_delimiter_def)
next
  case (Cons d ds)
  have "length (dropWhile is_id_char ds) \<le> Suc (length ds)"
    using length_dropWhile_le [of is_id_char ds] by simp
  moreover have "braced ds = Some (k, rest) \<Longrightarrow> length rest \<le> Suc (length ds)" for k rest
    using length_braced [of ds k rest] by simp
  ultimately show ?thesis
    using Cons by (auto simp: after_delimiter_def split: option.splits)
qed

text \<open>The text up to the next delimiter is copied as it is.\<close>

definition literal :: "char \<Rightarrow> token list \<Rightarrow> token list" where
  "literal c ts = (case ts of Text s # rest \<Rightarrow> Text (c # s) # rest | _ \<Rightarrow> Text [c] # ts)"

function scan :: "string \<Rightarrow> token list" where
  "scan [] = []"
| "scan (c # cs) =
     (if c = CHR ''$'' then fst (after_delimiter cs) # scan (snd (after_delimiter cs))
      else literal c (scan cs))"
  by pat_completeness auto
termination
  by (relation "measure length") (auto simp: le_imp_less_Suc length_after_delimiter)

declare scan.simps [simp del]

text \<open>
  \<^verbatim>\<open>convert\<close>: a named or braced match is replaced by \<^verbatim>\<open>str(mapping[named])\<close>,
  the lookup raising \<^verbatim>\<open>KeyError\<close>; an escaped one by the delimiter; an invalid one
  raises. The mapping holds the values after \<^verbatim>\<open>str\<close>.
\<close>

fun convert :: "(string \<rightharpoonup> string) \<Rightarrow> token \<Rightarrow> error + string" where
  "convert m (Text s) = Inr s"
| "convert m Escaped = Inr ''$''"
| "convert m (Named k) = (case m k of None \<Rightarrow> Inl (KeyError k) | Some v \<Rightarrow> Inr v)"
| "convert m (Braced k) = (case m k of None \<Rightarrow> Inl (KeyError k) | Some v \<Rightarrow> Inr v)"
| "convert m Invalid = Inl InvalidPlaceholder"

fun sub :: "(string \<rightharpoonup> string) \<Rightarrow> token list \<Rightarrow> error + string" where
  "sub m [] = Inr []"
| "sub m (t # ts) =
     (case convert m t of
        Inl e \<Rightarrow> Inl e
      | Inr s \<Rightarrow> (case sub m ts of Inl e \<Rightarrow> Inl e | Inr r \<Rightarrow> Inr (s @ r)))"

definition substitute :: "string \<Rightarrow> (string \<rightharpoonup> string) \<Rightarrow> error + string" where
  "substitute template m = sub m (scan template)"

text \<open>The keys a template refers to, in the order of their placeholders.\<close>

fun names :: "token list \<Rightarrow> string list" where
  "names [] = []"
| "names (Named k # ts) = k # names ts"
| "names (Braced k # ts) = k # names ts"
| "names (t # ts) = names ts"

definition references :: "string \<Rightarrow> string list" where
  "references template = names (scan template)"

subsection \<open>str methods and os.path functions\<close>

text \<open>
  \<^verbatim>\<open>str.isspace\<close> on the code points below 256: tab to carriage return, the four
  separators 28 to 31, the space, NEL (133) and the no-break space (160).
\<close>

definition isspace :: "char \<Rightarrow> bool" where
  "isspace c \<longleftrightarrow>
     (let n = (of_char c :: nat)
      in (9 \<le> n \<and> n \<le> 13) \<or> (28 \<le> n \<and> n \<le> 32) \<or> n = 133 \<or> n = 160)"

definition lstrip :: "string \<Rightarrow> string" where
  "lstrip s = dropWhile isspace s"

definition rstrip :: "string \<Rightarrow> string" where
  "rstrip s = rev (dropWhile isspace (rev s))"

definition strip :: "string \<Rightarrow> string" where
  "strip s = rstrip (lstrip s)"

definition startswith :: "string \<Rightarrow> string \<Rightarrow> bool" where
  "startswith s p \<longleftrightarrow> take (length p) s = p"

text \<open>\<^verbatim>\<open>s.split(sep, 1)\<close> for a separator of one character: one or two parts.\<close>

definition split_once :: "string \<Rightarrow> char \<Rightarrow> string list" where
  "split_once s sep =
     (case dropWhile (\<lambda>c. c \<noteq> sep) s of
        [] \<Rightarrow> [s]
      | _ # rest \<Rightarrow> [takeWhile (\<lambda>c. c \<noteq> sep) s, rest])"

text \<open>\<^verbatim>\<open>posixpath.basename\<close>: the text after the last slash.\<close>

definition basename :: "string \<Rightarrow> string" where
  "basename p = rev (takeWhile (\<lambda>c. c \<noteq> CHR ''/'') (rev p))"

text \<open>\<^verbatim>\<open>posixpath.join\<close> of two components.\<close>

definition path_join :: "string \<Rightarrow> string \<Rightarrow> string" where
  "path_join a b =
     (if startswith b ''/'' then b
      else if a = [] \<or> last a = CHR ''/'' then a @ b
      else a @ ''/'' @ b)"

text \<open>
  Iterating over a file opened in text mode yields its lines, each with its newline, the
  last one without if the file does not end in one.
\<close>

fun lines_from :: "string \<Rightarrow> string \<Rightarrow> string list" where
  "lines_from cur [] = (if cur = [] then [] else [cur])"
| "lines_from cur (c # cs) =
     (if c = CHR 0x0A then (cur @ [c]) # lines_from [] cs else lines_from (cur @ [c]) cs)"

definition readlines :: "string \<Rightarrow> string list" where
  "readlines text = lines_from [] text"

section \<open>deploy.py\<close>

subsection \<open>The templates\<close>

definition SYSTEMD_TEMPLATE :: string where
  \<open>SYSTEMD_TEMPLATE =
     ''[Unit]\<newline>'' @
     ''Description=$service_name service\<newline>'' @
     ''After=network.target\<newline>'' @
     ''\<newline>'' @
     ''[Service]\<newline>'' @
     ''User=$user\<newline>'' @
     ''Group=$group\<newline>'' @
     ''WorkingDirectory=$project_path\<newline>'' @
     ''ExecStart=$exec_start\<newline>'' @
     ''Restart=always\<newline>'' @
     ''RestartSec=5\<newline>'' @
     ''Environment=PATH=$venv_path/bin:$PATH\<newline>'' @
     ''$environment_vars\<newline>'' @
     ''\<newline>'' @
     ''[Install]\<newline>'' @
     ''WantedBy=multi-user.target\<newline>''\<close>

definition NGINX_TEMPLATE :: string where
  \<open>NGINX_TEMPLATE =
     ''server {\<newline>'' @
     ''    listen 80;\<newline>'' @
     ''    server_name $domain;\<newline>'' @
     ''\<newline>'' @
     ''    location / {\<newline>'' @
     ''        proxy_pass http://localhost:$port;\<newline>'' @
     ''        proxy_set_header Host $host;\<newline>'' @
     ''        proxy_set_header X-Real-IP $remote_addr;\<newline>'' @
     ''        proxy_set_header X-Forwarded-For $proxy_add_x_forwarded_for;\<newline>'' @
     ''        proxy_set_header X-Forwarded-Proto $scheme;\<newline>'' @
     ''    }\<newline>'' @
     ''}\<newline>''\<close>

definition NGINX_SSL_TEMPLATE :: string where
  \<open>NGINX_SSL_TEMPLATE =
     ''server {\<newline>'' @
     ''    listen 80;\<newline>'' @
     ''    server_name $domain;\<newline>'' @
     ''    return 301 https://$domain$request_uri;\<newline>'' @
     ''}\<newline>'' @
     ''\<newline>'' @
     ''server {\<newline>'' @
     ''    listen 443 ssl;\<newline>'' @
     ''    server_name $domain;\<newline>'' @
     ''\<newline>'' @
     ''    ssl_certificate /etc/letsencrypt/live/$domain/fullchain.pem;\<newline>'' @
     ''    ssl_certificate_key /etc/letsencrypt/live/$domain/privkey.pem;\<newline>'' @
     ''    ssl_protocols TLSv1.2 TLSv1.3;\<newline>'' @
     ''    ssl_prefer_server_ciphers on;\<newline>'' @
     ''    ssl_ciphers ECDHE-RSA-AES256-GCM-SHA512:DHE-RSA-AES256-GCM-SHA512:ECDHE-RSA-AES256-GCM-SHA384:DHE-RSA-AES256-GCM-SHA384;\<newline>'' @
     ''\<newline>'' @
     ''    location / {\<newline>'' @
     ''        proxy_pass http://localhost:$port;\<newline>'' @
     ''        proxy_set_header Host $host;\<newline>'' @
     ''        proxy_set_header X-Real-IP $remote_addr;\<newline>'' @
     ''        proxy_set_header X-Forwarded-For $proxy_add_x_forwarded_for;\<newline>'' @
     ''        proxy_set_header X-Forwarded-Proto $scheme;\<newline>'' @
     ''    }\<newline>'' @
     ''}\<newline>''\<close>

definition NGINX_FRONTEND_TEMPLATE :: string where
  \<open>NGINX_FRONTEND_TEMPLATE =
     ''server {\<newline>'' @
     ''    listen 80;\<newline>'' @
     ''    server_name $domain;\<newline>'' @
     ''\<newline>'' @
     ''    # API endpoints\<newline>'' @
     ''    location $api_url_prefix/ {\<newline>'' @
     ''        proxy_pass http://localhost:$port$api_url_prefix/;\<newline>'' @
     ''        proxy_set_header Host $host;\<newline>'' @
     ''        proxy_set_header X-Real-IP $remote_addr;\<newline>'' @
     ''        proxy_set_header X-Forwarded-For $proxy_add_x_forwarded_for;\<newline>'' @
     ''        proxy_set_header X-Forwarded-Proto $scheme;\<newline>'' @
     ''    }\<newline>'' @
     ''\<newline>'' @
     ''    # Frontend static files\<newline>'' @
     ''    location $frontend_url_prefix {\<newline>'' @
     ''        alias $frontend_path/;\<newline>'' @
     ''        try_files $uri $uri/ $frontend_url_prefix/index.html;\<newline>'' @
     ''        expires 1d;\<newline>'' @
     ''        add_header Cache-Control "public";\<newline>'' @
     ''    }\<newline>'' @
     ''}\<newline>''\<close>

definition NGINX_FRONTEND_SSL_TEMPLATE :: string where
  \<open>NGINX_FRONTEND_SSL_TEMPLATE =
     ''server {\<newline>'' @
     ''    listen 80;\<newline>'' @
     ''    server_name $domain;\<newline>'' @
     ''    return 301 https://$domain$request_uri;\<newline>'' @
     ''}\<newline>'' @
     ''\<newline>'' @
     ''server {\<newline>'' @
     ''    listen 443 ssl;\<newline>'' @
     ''    server_name $domain;\<newline>'' @
     ''\<newline>'' @
     ''    ssl_certificate /etc/letsencrypt/live/$domain/fullchain.pem;\<newline>'' @
     ''    ssl_certificate_key /etc/letsencrypt/live/$domain/privkey.pem;\<newline>'' @
     ''    ssl_protocols TLSv1.2 TLSv1.3;\<newline>'' @
     ''    ssl_prefer_server_ciphers on;\<newline>'' @
     ''    ssl_ciphers ECDHE-RSA-AES256-GCM-SHA512:DHE-RSA-AES256-GCM-SHA512:ECDHE-RSA-AES256-GCM-SHA384:DHE-RSA-AES256-GCM-SHA384;\<newline>'' @
     ''\<newline>'' @
     ''    # API endpoints\<newline>'' @
     ''    location $api_url_prefix/ {\<newline>'' @
     ''        proxy_pass http://localhost:$port$api_url_prefix/;\<newline>'' @
     ''        proxy_set_header Host $host;\<newline>'' @
     ''        proxy_set_header X-Real-IP $remote_addr;\<newline>'' @
     ''        proxy_set_header X-Forwarded-For $proxy_add_x_forwarded_for;\<newline>'' @
     ''        proxy_set_header X-Forwarded-Proto $scheme;\<newline>'' @
     ''    }\<newline>'' @
     ''\<newline>'' @
     ''    # Frontend static files\<newline>'' @
     ''    location $frontend_url_prefix {\<newline>'' @
     ''        alias $frontend_path/;\<newline>'' @
     ''        try_files $uri $uri/ $frontend_url_prefix/index.html;\<newline>'' @
     ''        expires 1d;\<newline>'' @
     ''        add_header Cache-Control "public";\<newline>'' @
     ''    }\<newline>'' @
     ''}\<newline>''\<close>

text \<open>
  The five templates by name, and \<^verbatim>\<open>Template(t).substitute(**substitutions)\<close> on one
  of them.
\<close>

datatype template_id =
  Systemd | Nginx | Nginx_Ssl | Nginx_Frontend | Nginx_Frontend_Ssl

fun template_text :: "template_id \<Rightarrow> string" where
  "template_text Systemd = SYSTEMD_TEMPLATE"
| "template_text Nginx = NGINX_TEMPLATE"
| "template_text Nginx_Ssl = NGINX_SSL_TEMPLATE"
| "template_text Nginx_Frontend = NGINX_FRONTEND_TEMPLATE"
| "template_text Nginx_Frontend_Ssl = NGINX_FRONTEND_SSL_TEMPLATE"

definition render :: "template_id \<Rightarrow> (string \<rightharpoonup> string) \<Rightarrow> error + string" where
  "render t substitutions = substitute (template_text t) substitutions"

subsection \<open>The launch command\<close>

text \<open>
  \<^verbatim>\<open>_get_exec_start\<close>. The numbers are Python integers, formatted by the f-string as
  \<^verbatim>\<open>str\<close> does.
\<close>

definition get_exec_start ::
  "string \<Rightarrow> string \<Rightarrow> string \<Rightarrow> int \<Rightarrow> int \<Rightarrow> int \<Rightarrow> error + string" where
  "get_exec_start framework project_path venv_path port workers timeout =
     (if framework = ''fastapi'' then
        Inr (venv_path @ ''/bin/uvicorn main:app --host 0.0.0.0 --port '' @ str_int port
             @ '' --workers '' @ str_int workers
             @ '' --timeout-keep-alive '' @ str_int timeout)
      else if framework = ''flask'' then
        Inr (venv_path @ ''/bin/gunicorn -w '' @ str_int workers
             @ '' -b 0.0.0.0:'' @ str_int port
             @ '' -t '' @ str_int timeout @ '' app:app'')
      else if framework = ''django'' then
        (let project_name = basename project_path
         in Inr (venv_path @ ''/bin/gunicorn -w '' @ str_int workers
                 @ '' -b 0.0.0.0:'' @ str_int port
                 @ '' -t '' @ str_int timeout @ '' '' @ project_name @ ''.wsgi:application''))
      else Inl (ValueError (''Unsupported framework: '' @ framework)))"

text \<open>
  The documented form of a launch command, for comparison with \<open>get_exec_start\<close>: its
  words, separated by single spaces.
\<close>

fun unwords :: "string list \<Rightarrow> string" where
  "unwords [] = []"
| "unwords [w] = w"
| "unwords (w # ws) = w @ '' '' @ unwords ws"

subsection \<open>The environment file\<close>

text \<open>
  The loop of \<^verbatim>\<open>deploy_api\<close> over the lines of the environment file, with the
  text collected so far in \<open>environment_vars\<close>. The test is on \<^verbatim>\<open>line.strip()\<close> for
  emptiness and on \<^verbatim>\<open>line\<close> itself for the \<open>#\<close>; the tuple assignment raises when
  \<^verbatim>\<open>split\<close> returns one part.
\<close>

definition directive :: "string \<Rightarrow> string \<Rightarrow> string" where
  \<open>directive key val = ''Environment="'' @ key @ ''='' @ val @ ''"\<newline>''\<close>

fun load_env :: "string list \<Rightarrow> string \<Rightarrow> error + string" where
  "load_env [] environment_vars = Inr environment_vars"
| "load_env (line # rest) environment_vars =
     (if strip line \<noteq> [] \<and> \<not> startswith line ''#'' then
        (case split_once (strip line) CHR ''='' of
           [key, val] \<Rightarrow> load_env rest (environment_vars @ directive key val)
         | _ \<Rightarrow> Inl UnpackError)
      else load_env rest environment_vars)"

subsection \<open>The host\<close>

text \<open>
  Everything outside the process is a parameter: the state \<open>'w\<close> of the machine and
  the operations below on it. A run carries that state together with the list of the
  actions it has performed so far, oldest first. Console output is not modelled, apart from
  the error line of the handler in \<^verbatim>\<open>main\<close>; exceptions of the operating system
  on file access are not modelled either.
\<close>

record exec_result =
  returncode :: int
  stdout :: string
  stderr :: string

datatype event =
    Ran string exec_result
  | Wrote string string
  | Spawned "string list" "exec_result option"
  | Asked string "string option"
  | Reported error

text \<open>
  \<open>Ran\<close> is \<^verbatim>\<open>subprocess.run(command, shell=True, ...)\<close> of \<^verbatim>\<open>_run_command\<close>,
  \<open>Wrote\<close> a temporary file with its name and content, \<open>Spawned\<close> a
  \<^verbatim>\<open>subprocess.run\<close> of \<^verbatim>\<open>cli.py\<close> on an argument list (\<open>None\<close> when the program is
  not found), \<open>Asked\<close> a call of \<^verbatim>\<open>input\<close> (\<open>None\<close> at end of input).
\<close>

record 'w host =
  shell :: "string \<Rightarrow> 'w \<Rightarrow> exec_result \<times> 'w"
  spawn :: "string list \<Rightarrow> 'w \<Rightarrow> exec_result option \<times> 'w"
  ask :: "string \<Rightarrow> 'w \<Rightarrow> string option \<times> 'w"
  temp_file :: "string \<Rightarrow> 'w \<Rightarrow> string \<times> 'w"
  read_text :: "string \<Rightarrow> 'w \<Rightarrow> string"
  isdir :: "string \<Rightarrow> 'w \<Rightarrow> bool"
  isfile :: "string \<Rightarrow> 'w \<Rightarrow> bool"
  path_exists :: "string \<Rightarrow> 'w \<Rightarrow> bool"
  abspath :: "string \<Rightarrow> 'w \<Rightarrow> string"

type_synonym 'w run = "'w \<times> event list"

type_synonym ('w, 'a) action = "'w run \<Rightarrow> (error + 'a) \<times> 'w run"

definition return :: "'a \<Rightarrow> ('w, 'a) action" where
  "return x s = (Inr x, s)"

definition raise :: "error \<Rightarrow> ('w, 'a) action" where
  "raise e s = (Inl e, s)"

definition lift :: "error + 'a \<Rightarrow> ('w, 'a) action" where
  "lift r s = (r, s)"

text \<open>Sequencing: an exception of the first action skips the rest.\<close>

definition and_then :: "('w, 'a) action \<Rightarrow> ('a \<Rightarrow> ('w, 'b) action) \<Rightarrow> ('w, 'b) action" where
  "and_then a f s = (case a s of (Inl e, s') \<Rightarrow> (Inl e, s') | (Inr x, s') \<Rightarrow> f x s')"

text \<open>Reading the state of the machine: a test on a path, the content of a file.\<close>

definition query :: "('w \<Rightarrow> 'a) \<Rightarrow> ('w, 'a) action" where
  "query f s = (Inr (f (fst s)), s)"

definition run_command :: "'w host \<Rightarrow> string \<Rightarrow> ('w, string) action" where
  "run_command h command s =
     (let (result, w') = shell h command (fst s);
          s' = (w', snd s @ [Ran command result])
      in if returncode result \<noteq> 0
         then (Inl (RuntimeError (''Command failed: '' @ stderr result)), s')
         else (Inr (strip (stdout result)), s'))"

text \<open>
  \<^verbatim>\<open>with tempfile.NamedTemporaryFile(mode='w', delete=False) as tmp\<close>, the write and the
  name of the file.
\<close>

definition write_temp :: "'w host \<Rightarrow> string \<Rightarrow> ('w, string) action" where
  "write_temp h content s =
     (let (tmp_path, w') = temp_file h content (fst s)
      in (Inr tmp_path, (w', snd s @ [Wrote tmp_path content])))"

text \<open>What a list of actions holds: the files written and the shell commands run.\<close>

fun written :: "event list \<Rightarrow> (string \<times> string) list" where
  "written [] = []"
| "written (Wrote name content # evs) = (name, content) # written evs"
| "written (ev # evs) = written evs"

fun commands :: "event list \<Rightarrow> string list" where
  "commands [] = []"
| "commands (Ran command result # evs) = command # commands evs"
| "commands (ev # evs) = commands evs"

subsection \<open>deploy\_api\<close>

record request =
  project_path :: string
  service_name :: string
  framework :: string
  workers :: int
  timeout :: int
  port :: int
  venv_name :: string
  domain :: "string option"
  enable_db :: bool
  env_file :: "string option"
  verbose :: bool
  frontend_path :: "string option"
  frontend_url_prefix :: string
  api_url_prefix :: string

text \<open>The truth value of an optional text: neither \<^verbatim>\<open>None\<close> nor empty.\<close>

definition truthy :: "string option \<Rightarrow> bool" where
  "truthy v = (case v of None \<Rightarrow> False | Some t \<Rightarrow> t \<noteq> [])"

text \<open>Lines 214 to 222: the environment directives.\<close>

definition environment_of :: "'w host \<Rightarrow> string \<Rightarrow> string option \<Rightarrow> ('w, string) action" where
  "environment_of h abs_project envf =
     (if truthy envf then
        and_then (query (isfile h (path_join abs_project (the envf)))) (\<lambda>is_file.
          if is_file then
            and_then (query (read_text h (path_join abs_project (the envf)))) (\<lambda>content.
              lift (load_env (readlines content) []))
          else return [])
      else return [])"

text \<open>Lines 225 to 238: the launch command and the text of the unit.\<close>

definition systemd_content ::
  "request \<Rightarrow> string \<Rightarrow> string \<Rightarrow> string \<Rightarrow> string \<Rightarrow> error + string" where
  "systemd_content rq abs_project user grp environment_vars =
     (let venv_path = path_join abs_project (venv_name rq)
      in case get_exec_start (framework rq) abs_project venv_path
                (port rq) (workers rq) (timeout rq) of
           Inl e \<Rightarrow> Inl e
         | Inr exec_start \<Rightarrow>
             substitute SYSTEMD_TEMPLATE
               [''service_name'' \<mapsto> service_name rq,
                ''user'' \<mapsto> user,
                ''group'' \<mapsto> grp,
                ''project_path'' \<mapsto> abs_project,
                ''exec_start'' \<mapsto> exec_start,
                ''venv_path'' \<mapsto> venv_path,
                ''environment_vars'' \<mapsto> environment_vars])"

text \<open>Lines 244 to 249 and 303 to 308: a text is written to a temporary file and moved.\<close>

definition install_file :: "'w host \<Rightarrow> string \<Rightarrow> string \<Rightarrow> ('w, unit) action" where
  "install_file h content target =
     and_then (write_temp h content) (\<lambda>tmp_path.
     and_then (run_command h (''sudo mv '' @ tmp_path @ '' '' @ target)) (\<lambda>_.
     and_then (run_command h (''sudo chmod 644 '' @ target)) (\<lambda>_.
     return ())))"

text \<open>Lines 268 to 299: the choice of the template and its rendering.\<close>

definition nginx_content :: "request \<Rightarrow> string \<Rightarrow> bool \<Rightarrow> string option \<Rightarrow> error + string" where
  "nginx_content rq domain_name ssl_exists frontend =
     (case frontend of
        Some abs_frontend \<Rightarrow>
          substitute (if ssl_exists then NGINX_FRONTEND_SSL_TEMPLATE else NGINX_FRONTEND_TEMPLATE)
            [''domain'' \<mapsto> domain_name,
             ''port'' \<mapsto> str_int (port rq),
             ''frontend_path'' \<mapsto> abs_frontend,
             ''api_url_prefix'' \<mapsto> api_url_prefix rq,
             ''frontend_url_prefix'' \<mapsto> frontend_url_prefix rq]
      | None \<Rightarrow>
          substitute (if ssl_exists then NGINX_SSL_TEMPLATE else NGINX_TEMPLATE)
            [''domain'' \<mapsto> domain_name,
             ''port'' \<mapsto> str_int (port rq)])"

text \<open>
  Lines 253 to 325, entered when \<^verbatim>\<open>domain\<close> is true. \<open>frontend\<close> is the absolute
  frontend path when \<^verbatim>\<open>has_frontend\<close> holds.
\<close>

definition has_frontend :: "'w host \<Rightarrow> request \<Rightarrow> ('w, bool) action" where
  "has_frontend h rq =
     (if truthy (frontend_path rq) then query (isdir h (the (frontend_path rq)))
      else return False)"

definition configure_nginx :: "'w host \<Rightarrow> request \<Rightarrow> string \<Rightarrow> ('w, bool) action" where
  "configure_nginx h rq domain_name =
     (let nginx_file = ''/etc/nginx/sites-available/'' @ service_name rq;
          sites_enabled = ''/etc/nginx/sites-enabled/'' @ service_name rq
      in
      and_then (run_command h (''sudo test -d /etc/letsencrypt/live/'' @ domain_name
                               @ '' && echo 'yes' || echo 'no'' @ [CHR 0x27])) (\<lambda>answer.
      and_then (has_frontend h rq) (\<lambda>frontend_found.
      and_then (if frontend_found
                then and_then (query (abspath h (the (frontend_path rq)))) (\<lambda>p. return (Some p))
                else return None) (\<lambda>frontend.
      and_then (lift (nginx_content rq domain_name (answer = ''yes'') frontend)) (\<lambda>content.
      and_then (install_file h content nginx_file) (\<lambda>_.
      and_then (query (path_exists h sites_enabled)) (\<lambda>enabled.
      and_then (if \<not> enabled
                then run_command h (''sudo ln -s '' @ nginx_file @ '' '' @ sites_enabled)
                else return []) (\<lambda>_.
      and_then (run_command h ''sudo nginx -t'') (\<lambda>_.
      and_then (run_command h ''sudo systemctl reload nginx'') (\<lambda>_.
      and_then (if answer \<noteq> ''yes''
                then run_command h (''sudo certbot --nginx -d '' @ domain_name
                       @ '' --non-interactive --agree-tos --email admin@'' @ domain_name)
                else return []) (\<lambda>_.
      return (answer = ''yes''))))))))))))"

text \<open>Lines 327 to 337: the service is enabled, restarted and asked for its status.\<close>

definition start_service :: "'w host \<Rightarrow> request \<Rightarrow> ('w, string) action" where
  "start_service h rq =
     and_then (run_command h ''sudo systemctl daemon-reload'') (\<lambda>_.
     and_then (run_command h (''sudo systemctl enable '' @ service_name rq)) (\<lambda>_.
     and_then (run_command h (''sudo systemctl restart '' @ service_name rq)) (\<lambda>_.
     run_command h (''sudo systemctl status '' @ service_name rq @ '' --no-pager''))))"

definition deploy_api :: "'w host \<Rightarrow> request \<Rightarrow> ('w, unit) action" where
  "deploy_api h rq =
     and_then (query (abspath h (project_path rq))) (\<lambda>abs_project.
     and_then (query (isdir h abs_project)) (\<lambda>is_dir.
       if \<not> is_dir
       then raise (ValueError (''Project path does not exist: '' @ abs_project))
       else
         and_then (run_command h ''whoami'') (\<lambda>user.
         and_then (run_command h ''id -gn'') (\<lambda>grp.
         and_then (environment_of h abs_project (env_file rq)) (\<lambda>environment_vars.
         and_then (lift (systemd_content rq abs_project user grp environment_vars)) (\<lambda>content.
         and_then (install_file h content
                     (''/etc/systemd/system/'' @ service_name rq @ ''.service'')) (\<lambda>_.
         and_then (if truthy (domain rq)
                   then and_then (configure_nginx h rq (the (domain rq))) (\<lambda>_. return ())
                   else return ()) (\<lambda>_.
         and_then (start_service h rq) (\<lambda>_.
         return ())))))))))"

section \<open>cli.py\<close>

subsection \<open>The dependency check\<close>

text \<open>\<^verbatim>\<open>str.lower\<close> on the code points below 256.\<close>

definition lower_char :: "char \<Rightarrow> char" where
  "lower_char c =
     (let n = (of_char c :: nat)
      in if (65 \<le> n \<and> n \<le> 90) \<or> (192 \<le> n \<and> n \<le> 222 \<and> n \<noteq> 215) then char_of (n + 32)
         else c)"

definition lower :: "string \<Rightarrow> string" where
  "lower s = map lower_char s"

definition required_packages :: "(string \<times> string) list" where
  "required_packages =
     [(''nginx'', ''nginx''), (''certbot'', ''certbot''),
      (''python3-certbot-nginx'', ''python3-certbot-nginx'')]"

text \<open>
  \<^verbatim>\<open>subprocess.run\<close> on an argument list. With \<^verbatim>\<open>check=False\<close> the exit code is
  returned to the caller, and only a program that is not found raises.
\<close>

definition spawn_process :: "'w host \<Rightarrow> string list \<Rightarrow> ('w, exec_result option) action" where
  "spawn_process h argv s =
     (let (r, w') = spawn h argv (fst s) in (Inr r, (w', snd s @ [Spawned argv r])))"

text \<open>
  The body of the loop over \<^verbatim>\<open>required_packages\<close>: the probe of one package, with
  the list of the missing ones; a program that is not found is caught there.
\<close>

definition probe ::
  "'w host \<Rightarrow> string \<times> string \<Rightarrow> string list \<Rightarrow> ('w, string list) action" where
  "probe h entry missing_packages =
     (let package = fst entry; install_name = snd entry
      in if package = ''nginx'' then
           and_then (spawn_process h [''nginx'', ''-v'']) (\<lambda>r.
             case r of None \<Rightarrow> return (missing_packages @ [install_name])
             | Some _ \<Rightarrow> return missing_packages)
         else if package = ''certbot'' then
           and_then (spawn_process h [''certbot'', ''--version'']) (\<lambda>r.
             case r of None \<Rightarrow> return (missing_packages @ [install_name])
             | Some _ \<Rightarrow> return missing_packages)
         else
           and_then (spawn_process h [''dpkg'', ''-l'', install_name]) (\<lambda>r.
             case r of None \<Rightarrow> return (missing_packages @ [install_name])
             | Some result \<Rightarrow>
                 return (if returncode result \<noteq> 0 then missing_packages @ [install_name]
                         else missing_packages)))"

fun probe_all ::
  "'w host \<Rightarrow> (string \<times> string) list \<Rightarrow> string list \<Rightarrow> ('w, string list) action" where
  "probe_all h [] missing_packages = return missing_packages"
| "probe_all h (entry # rest) missing_packages =
     and_then (probe h entry missing_packages) (\<lambda>m. probe_all h rest m)"

text \<open>
  \<^verbatim>\<open>subprocess.run(..., check=True)\<close> inside the \<^verbatim>\<open>try\<close> of
  \<^verbatim>\<open>check_dependencies\<close>: \<^verbatim>\<open>CalledProcessError\<close> is caught there and gives
  \<open>False\<close>; a program that is not found is not caught there.
\<close>

definition checked :: "'w host \<Rightarrow> string list \<Rightarrow> ('w, bool) action" where
  "checked h argv =
     and_then (spawn_process h argv) (\<lambda>r.
       case r of None \<Rightarrow> raise (FileNotFoundError (hd argv))
       | Some result \<Rightarrow> return (returncode result = 0))"

definition ask_user :: "'w host \<Rightarrow> string \<Rightarrow> ('w, string) action" where
  "ask_user h prompt s =
     (let (r, w') = ask h prompt (fst s); s' = (w', snd s @ [Asked prompt r])
      in case r of None \<Rightarrow> (Inl EOFError, s') | Some answer \<Rightarrow> (Inr answer, s'))"

definition check_dependencies :: "'w host \<Rightarrow> ('w, bool) action" where
  "check_dependencies h =
     and_then (probe_all h required_packages []) (\<lambda>missing_packages.
       if missing_packages \<noteq> [] then
         and_then (ask_user h ''Would you like to install them now? (y/n): '') (\<lambda>answer.
           if strip (lower answer) = ''y'' then
             and_then (checked h [''sudo'', ''apt-get'', ''update'']) (\<lambda>updated.
               if \<not> updated then return False
               else
                 and_then (checked h ([''sudo'', ''apt-get'', ''install'', ''-y'']
                                      @ missing_packages)) (\<lambda>installed.
                   return installed))
           else return False)
       else return True)"

subsection \<open>The argument parser\<close>

text \<open>
  \<^verbatim>\<open>argparse\<close> is a library. What is modelled is what \<^verbatim>\<open>main\<close> declares with
  \<^verbatim>\<open>add_argument\<close>: each option with its destination, conversion, choices, default
  and whether it is required. The command line is taken after the library has matched
  option strings: a list of occurrences, each the option string as declared and the
  argument given to it, if any. The conversion \<^verbatim>\<open>int\<close> of a text is a parameter.
  A rejected command line ends the process with \<^verbatim>\<open>SystemExit(2)\<close>, \<^verbatim>\<open>--help\<close> with
  \<^verbatim>\<open>SystemExit(0)\<close>.
\<close>

record namespace =
  ns_project_path :: "string option"
  ns_service_name :: "string option"
  ns_framework :: "string option"
  ns_port :: "int option"
  ns_venv_name :: "string option"
  ns_workers :: int
  ns_timeout :: int
  ns_domain :: "string option"
  ns_enable_db :: bool
  ns_env_file :: "string option"
  ns_verbose :: bool
  ns_frontend_path :: "string option"
  ns_frontend_url_prefix :: string
  ns_api_url_prefix :: string

definition defaults :: namespace where
  "defaults =
     \<lparr>ns_project_path = None, ns_service_name = None, ns_framework = None, ns_port = None,
      ns_venv_name = None, ns_workers = 2, ns_timeout = 120, ns_domain = None,
      ns_enable_db = False, ns_env_file = None, ns_verbose = False, ns_frontend_path = None,
      ns_frontend_url_prefix = ''/'', ns_api_url_prefix = ''/api''\<rparr>"

definition framework_choices :: "string list" where
  "framework_choices = [''flask'', ''fastapi'', ''django'']"

definition take_action ::
  "(string \<Rightarrow> int option) \<Rightarrow> string \<times> string option \<Rightarrow> namespace \<Rightarrow> error + namespace" where
  "take_action to_int occurrence ns =
     (case occurrence of
        (opt, Some v) \<Rightarrow>
          if opt = ''--project-path'' then Inr (ns\<lparr>ns_project_path := Some v\<rparr>)
          else if opt = ''--service-name'' then Inr (ns\<lparr>ns_service_name := Some v\<rparr>)
          else if opt = ''--framework'' then
            (if v \<in> set framework_choices then Inr (ns\<lparr>ns_framework := Some v\<rparr>)
             else Inl (SystemExit 2))
          else if opt = ''--port'' then
            (case to_int v of None \<Rightarrow> Inl (SystemExit 2)
             | Some n \<Rightarrow> Inr (ns\<lparr>ns_port := Some n\<rparr>))
          else if opt = ''--venv-name'' then Inr (ns\<lparr>ns_venv_name := Some v\<rparr>)
          else if opt = ''--workers'' then
            (case to_int v of None \<Rightarrow> Inl (SystemExit 2)
             | Some n \<Rightarrow> Inr (ns\<lparr>ns_workers := n\<rparr>))
          else if opt = ''--timeout'' then
            (case to_int v of None \<Rightarrow> Inl (SystemExit 2)
             | Some n \<Rightarrow> Inr (ns\<lparr>ns_timeout := n\<rparr>))
          else if opt = ''--domain'' then Inr (ns\<lparr>ns_domain := Some v\<rparr>)
          else if opt = ''--env-file'' then Inr (ns\<lparr>ns_env_file := Some v\<rparr>)
          else if opt = ''--frontend-path'' then Inr (ns\<lparr>ns_frontend_path := Some v\<rparr>)
          else if opt = ''--frontend-url-prefix'' then Inr (ns\<lparr>ns_frontend_url_prefix := v\<rparr>)
          else if opt = ''--api-url-prefix'' then Inr (ns\<lparr>ns_api_url_prefix := v\<rparr>)
          else Inl (SystemExit 2)
      | (opt, None) \<Rightarrow>
          if opt = ''--enable-db'' then Inr (ns\<lparr>ns_enable_db := True\<rparr>)
          else if opt = ''--verbose'' then Inr (ns\<lparr>ns_verbose := True\<rparr>)
          else if opt = ''-h'' \<or> opt = ''--help'' then Inl (SystemExit 0)
          else Inl (SystemExit 2))"

fun take_actions ::
  "(string \<Rightarrow> int option) \<Rightarrow> (string \<times> string option) list \<Rightarrow> namespace \<Rightarrow> error + namespace" where
  "take_actions to_int [] ns = Inr ns"
| "take_actions to_int (occurrence # rest) ns =
     (case take_action to_int occurrence ns of
        Inl e \<Rightarrow> Inl e
      | Inr ns' \<Rightarrow> take_actions to_int rest ns')"

text \<open>The five required options must have occurred; then the request is complete.\<close>

definition parse_args ::
  "(string \<Rightarrow> int option) \<Rightarrow> (string \<times> string option) list \<Rightarrow> error + request" where
  "parse_args to_int occurrences =
     (case take_actions to_int occurrences defaults of
        Inl e \<Rightarrow> Inl e
      | Inr ns \<Rightarrow>
          (case (ns_project_path ns, ns_service_name ns, ns_framework ns, ns_port ns,
                 ns_venv_name ns) of
             (Some pp, Some sn, Some fw, Some p, Some vn) \<Rightarrow>
               Inr \<lparr>project_path = pp, service_name = sn, framework = fw,
                    workers = ns_workers ns, timeout = ns_timeout ns, port = p, venv_name = vn,
                    domain = ns_domain ns, enable_db = ns_enable_db ns,
                    env_file = ns_env_file ns, verbose = ns_verbose ns,
                    frontend_path = ns_frontend_path ns,
                    frontend_url_prefix = ns_frontend_url_prefix ns,
                    api_url_prefix = ns_api_url_prefix ns\<rparr>
           | _ \<Rightarrow> Inl (SystemExit 2)))"

subsection \<open>main\<close>

text \<open>
  The body of the \<^verbatim>\<open>try\<close> in \<^verbatim>\<open>main\<close>, which returns the exit code, and the
  handler around it, which reports the exception and returns 1.
\<close>

definition server_ip :: "'w host \<Rightarrow> ('w, string) action" where
  "server_ip h =
     and_then (spawn_process h [''hostname'', ''-I'']) (\<lambda>r.
       case r of None \<Rightarrow> raise (FileNotFoundError ''hostname'')
       | Some result \<Rightarrow>
           if strip (stdout result) = [] then raise IndexError
           else return (takeWhile (\<lambda>c. \<not> isspace c) (strip (stdout result))))"

definition main_body :: "'w host \<Rightarrow> request \<Rightarrow> ('w, int) action" where
  "main_body h args =
     and_then (check_dependencies h) (\<lambda>ok.
       if \<not> ok then return 1
       else
         and_then (query (isdir h (path_join (project_path args) (venv_name args)))) (\<lambda>venv_found.
           if \<not> venv_found then return 1
           else
             and_then (deploy_api h args) (\<lambda>_.
             and_then (server_ip h) (\<lambda>_.
             return 0))))"

definition main :: "'w host \<Rightarrow> request \<Rightarrow> 'w run \<Rightarrow> int \<times> 'w run" where
  "main h args s =
     (case main_body h args s of
        (Inl e, s') \<Rightarrow> (1, (fst s', snd s' @ [Reported e]))
      | (Inr code, s') \<Rightarrow> (code, s'))"

section \<open>Failing commands in a run\<close>

text \<open>
  A command of \<^verbatim>\<open>_run_command\<close> that exits with a code other than 0 fails, with
  the \<^verbatim>\<open>RuntimeError\<close> it raises. A list of actions halts at a failure when no action
  but the last is a failed command, none at all when the result is a value, and when the
  last one is a failed command and the result an exception, the exception is the one of
  that command. An action is orderly when, from every state, the actions it adds to the run
  halt at a failure.
\<close>

fun failure_of :: "event \<Rightarrow> error option" where
  "failure_of (Ran command result) =
     (if returncode result \<noteq> 0 then Some (RuntimeError (''Command failed: '' @ stderr result))
      else None)"
| "failure_of ev = None"

definition clean :: "event list \<Rightarrow> bool" where
  "clean evs = list_all (\<lambda>ev. failure_of ev = None) evs"




section \<open>An example host and request\<close>

text \<open>
  A machine on which every command succeeds and prints \<open>deploy\<close>, every directory
  exists and no file does; and a request for a fastapi service. They are the concrete
  inputs of the examples below.
\<close>

definition example_request :: request where
  "example_request =
     \<lparr>project_path = ''/srv/app'', service_name = ''app'', framework = ''fastapi'',
      workers = 2, timeout = 120, port = 8000, venv_name = ''venv'',
      domain = Some ''example.com'', enable_db = False, env_file = None, verbose = False,
      frontend_path = None, frontend_url_prefix = ''/'', api_url_prefix = ''/api''\<rparr>"

definition quiet_host :: "unit host" where
  "quiet_host =
     \<lparr>shell = (\<lambda>command w. (\<lparr>returncode = 0, stdout = ''deploy\<newline>'', stderr = []\<rparr>, w)),
      spawn = (\<lambda>argv w. (Some \<lparr>returncode = 0, stdout = ''10.0.0.5 \<newline>'', stderr = []\<rparr>, w)),
      ask = (\<lambda>prompt w. (Some ''n'', w)),
      temp_file = (\<lambda>content w. (''/tmp/tmpab12'', w)),
      read_text = (\<lambda>path w. []),
      isdir = (\<lambda>path w. True),
      isfile = (\<lambda>path w. False),
      path_exists = (\<lambda>path w. False),
      abspath = (\<lambda>path w. path)\<rparr>"





text \<open>A command line for that request, as the occurrences of its options.\<close>

definition example_command_line :: "(string \<times> string option) list" where
  "example_command_line =
     [(''--project-path'', Some ''/srv/app''), (''--service-name'', Some ''app''),
      (''--framework'', Some ''fastapi''), (''--port'', Some ''8000''),
      (''--venv-name'', Some ''venv''), (''--domain'', Some ''example.com'')]"

definition example_int :: "string \<Rightarrow> int option" where
  "example_int v = (if v = ''8000'' then Some 8000 else None)"

section \<open>Properties\<close>

subsection \<open>The launch command\<close>

lemma str_int_examples:
  "str_int 8000 = ''8000''" "str_int 2 = ''2''" "str_int 120 = ''120''"
  by (simp_all add: str_int_def digits.simps char_of_def bit_Suc_0_iff)

text \<open>
  C2. For each of the three supported frameworks the launch command is the documented one,
  with the port, the worker count and the timeout in it as \<^verbatim>\<open>str\<close> prints them:
  \<^verbatim>\<open>uvicorn main:app\<close> on 0.0.0.0 for fastapi, \<^verbatim>\<open>gunicorn ... app:app\<close> for flask,
  and the same \<^verbatim>\<open>gunicorn\<close> command on \<^verbatim>\<open><basename of the project path>.wsgi:application\<close>
  for django.
\<close>

theorem exec_start_per_framework:
  "get_exec_start ''fastapi'' project venv p w t =
     Inr (unwords [venv @ ''/bin/uvicorn'', ''main:app'', ''--host'', ''0.0.0.0'',
                   ''--port'', str_int p, ''--workers'', str_int w,
                   ''--timeout-keep-alive'', str_int t])
   \<and> get_exec_start ''flask'' project venv p w t =
     Inr (unwords [venv @ ''/bin/gunicorn'', ''-w'', str_int w, ''-b'', ''0.0.0.0:'' @ str_int p,
                   ''-t'', str_int t, ''app:app''])
   \<and> get_exec_start ''django'' project venv p w t =
     Inr (unwords [venv @ ''/bin/gunicorn'', ''-w'', str_int w, ''-b'', ''0.0.0.0:'' @ str_int p,
                   ''-t'', str_int t, basename project @ ''.wsgi:application''])
   \<and> get_exec_start ''fastapi'' ''/srv/shop'' ''/srv/shop/venv'' 8000 2 120 =
     Inr ''/srv/shop/venv/bin/uvicorn main:app --host 0.0.0.0 --port 8000 --workers 2 --timeout-keep-alive 120''
   \<and> get_exec_start ''flask'' ''/srv/shop'' ''/srv/shop/venv'' 8000 2 120 =
     Inr ''/srv/shop/venv/bin/gunicorn -w 2 -b 0.0.0.0:8000 -t 120 app:app''
   \<and> get_exec_start ''django'' ''/srv/shop'' ''/srv/shop/venv'' 8000 2 120 =
     Inr ''/srv/shop/venv/bin/gunicorn -w 2 -b 0.0.0.0:8000 -t 120 shop.wsgi:application''"
proof -
  have 1: "get_exec_start ''fastapi'' project venv p w t =
     Inr (unwords [venv @ ''/bin/uvicorn'', ''main:app'', ''--host'', ''0.0.0.0'',
                   ''--port'', str_int p, ''--workers'', str_int w,
                   ''--timeout-keep-alive'', str_int t])"
    by (simp add: get_exec_start_def)
  have 2: "get_exec_start ''flask'' project venv p w t =
     Inr (unwords [venv @ ''/bin/gunicorn'', ''-w'', str_int w, ''-b'', ''0.0.0.0:'' @ str_int p,
                   ''-t'', str_int t, ''app:app''])"
    by (simp add: get_exec_start_def)
  have 3: "get_exec_start ''django'' project venv p w t =
     Inr (unwords [venv @ ''/bin/gunicorn'', ''-w'', str_int w, ''-b'', ''0.0.0.0:'' @ str_int p,
                   ''-t'', str_int t, basename project @ ''.wsgi:application''])"
    by (simp add: get_exec_start_def)
  have 4: "get_exec_start ''fastapi'' ''/srv/shop'' ''/srv/shop/venv'' 8000 2 120 =
     Inr ''/srv/shop/venv/bin/uvicorn main:app --host 0.0.0.0 --port 8000 --workers 2 --timeout-keep-alive 120''"
    by (simp add: get_exec_start_def str_int_examples)
  have 5: "get_exec_start ''flask'' ''/srv/shop'' ''/srv/shop/venv'' 8000 2 120 =
     Inr ''/srv/shop/venv/bin/gunicorn -w 2 -b 0.0.0.0:8000 -t 120 app:app''"
    by (simp add: get_exec_start_def str_int_examples)
  have 6: "get_exec_start ''django'' ''/srv/shop'' ''/srv/shop/venv'' 8000 2 120 =
     Inr ''/srv/shop/venv/bin/gunicorn -w 2 -b 0.0.0.0:8000 -t 120 shop.wsgi:application''"
    by (simp add: get_exec_start_def str_int_examples basename_def)
  show ?thesis
    by (intro conjI) (fact 1 2 3 4 5 6)+
qed

subsection \<open>The environment file\<close>


lemma split_once_none:
  assumes "CHR ''='' \<notin> set s"
  shows "split_once s CHR ''='' = [s]"
proof -
  have d: "dropWhile (\<lambda>c. c \<noteq> CHR ''='') s = []"
    using assms by auto
  show ?thesis unfolding split_once_def d by simp
qed

lemma set_strip: "set (strip s) \<subseteq> set s"
  unfolding strip_def rstrip_def lstrip_def
  by (metis set_dropWhileD set_rev subsetI)



lemma load_env_unpack:
  assumes "strip line \<noteq> []" and "\<not> startswith line ''#''" and "CHR ''='' \<notin> set line"
  shows "load_env (line # rest) acc = Inl UnpackError"
proof -
  have "CHR ''='' \<notin> set (strip line)"
    using assms(3) set_strip by blast
  then show ?thesis
    using assms split_once_none [of "strip line"] by simp
qed

lemma indented_hash:
  assumes "ws \<noteq> []" and "\<forall>c \<in> set ws. isspace c"
  shows "\<not> startswith (ws @ ''#'' @ r) ''#'' \<and> strip (ws @ ''#'' @ r) \<noteq> []"
proof -
  obtain w1 wr where ws: "ws = w1 # wr"
    using assms(1) by (cases ws) auto
  have hash: "\<not> isspace CHR ''#''"
    by (simp add: isspace_def)
  have ne: "w1 \<noteq> CHR ''#''"
    using assms(2) ws hash by auto
  have l: "lstrip (ws @ ''#'' @ r) = ''#'' @ r"
    unfolding lstrip_def using assms(2) hash by (subst dropWhile_append2) auto
  have "rstrip (''#'' @ r) \<noteq> []"
    unfolding rstrip_def using hash by (simp add: dropWhile_append)
  then show ?thesis
    using ne l by (simp add: startswith_def strip_def ws)
qed



text \<open>
  C10. The test for a comment is made on the line as read: a line of white space followed
  by \<open>#\<close> is not skipped, and a line that is not blank, does not start with \<open>#\<close> and
  holds no \<open>=\<close> makes the parsing fail in the tuple assignment. So an indented comment
  without \<open>=\<close> fails, and one with \<open>=\<close> becomes a directive.
\<close>

theorem comment_detection_on_raw_line:
  "(ws \<noteq> [] \<and> (\<forall>c \<in> set ws. isspace c)
      \<longrightarrow> \<not> startswith (ws @ ''#'' @ r) ''#'' \<and> strip (ws @ ''#'' @ r) \<noteq> [])
   \<and> (ws \<noteq> [] \<and> (\<forall>c \<in> set ws. isspace c) \<and> CHR ''='' \<notin> set r
      \<longrightarrow> load_env ((ws @ ''#'' @ r) # rest) acc = Inl UnpackError)
   \<and> (strip line \<noteq> [] \<and> \<not> startswith line ''#'' \<and> CHR ''='' \<notin> set line
      \<longrightarrow> load_env (line # rest) acc = Inl UnpackError)
   \<and> load_env [''  # a=b\<newline>''] [] = Inr (directive ''# a'' ''b'')"
proof -
  have not_space: "\<not> isspace CHR ''=''"
    by (simp add: isspace_def)
  have 1: "ws \<noteq> [] \<and> (\<forall>c \<in> set ws. isspace c)
      \<longrightarrow> \<not> startswith (ws @ ''#'' @ r) ''#'' \<and> strip (ws @ ''#'' @ r) \<noteq> []"
    using indented_hash by blast
  have 2: "ws \<noteq> [] \<and> (\<forall>c \<in> set ws. isspace c) \<and> CHR ''='' \<notin> set r
      \<longrightarrow> load_env ((ws @ ''#'' @ r) # rest) acc = Inl UnpackError"
  proof
    assume a: "ws \<noteq> [] \<and> (\<forall>c \<in> set ws. isspace c) \<and> CHR ''='' \<notin> set r"
    then have "CHR ''='' \<notin> set (ws @ ''#'' @ r)"
      using not_space by auto
    then show "load_env ((ws @ ''#'' @ r) # rest) acc = Inl UnpackError"
      using a indented_hash [of ws r] load_env_unpack by blast
  qed
  have 3: "strip line \<noteq> [] \<and> \<not> startswith line ''#'' \<and> CHR ''='' \<notin> set line
      \<longrightarrow> load_env (line # rest) acc = Inl UnpackError"
    using load_env_unpack by blast
  have 4: "load_env [''  # a=b\<newline>''] [] = Inr (directive ''# a'' ''b'')"
    by code_simp
  show ?thesis
    using 1 2 3 4 by blast
qed

theorem comment_detection_on_raw_line_witness:
  "list_all isspace ''  '' \<and> CHR ''='' \<notin> set '' note\<newline>''
   \<and> \<not> startswith (''  '' @ ''#'' @ '' note\<newline>'') ''#''
   \<and> load_env [''  # note\<newline>'', ''A=1\<newline>''] [] = Inl UnpackError
   \<and> strip ''export\<newline>'' \<noteq> [] \<and> \<not> startswith ''export\<newline>'' ''#''
   \<and> CHR ''='' \<notin> set ''export\<newline>''
   \<and> load_env [''export\<newline>'', ''A=1\<newline>''] [] = Inl UnpackError"
proof -
  have a0: "list_all isspace ''  '' \<and> CHR ''='' \<notin> set '' note\<newline>''"
    by (simp add: isspace_def)
  then have a: "''  '' \<noteq> [] \<and> (\<forall>c \<in> set ''  ''. isspace c) \<and> CHR ''='' \<notin> set '' note\<newline>''"
    by (simp add: list_all_iff)
  have b: "strip ''export\<newline>'' \<noteq> [] \<and> \<not> startswith ''export\<newline>'' ''#''
        \<and> CHR ''='' \<notin> set ''export\<newline>''"
    by code_simp
  note t = comment_detection_on_raw_line [of "''  ''" "'' note\<newline>''" "[''A=1\<newline>'']" "[]"
             "''export\<newline>''"]
  have c: "\<not> startswith (''  '' @ ''#'' @ '' note\<newline>'') ''#''"
    using t a by blast
  have d: "load_env ((''  '' @ ''#'' @ '' note\<newline>'') # [''A=1\<newline>'']) [] = Inl UnpackError"
    using t a by blast
  have e: "load_env (''export\<newline>'' # [''A=1\<newline>'']) [] = Inl UnpackError"
    using t b by blast
  show ?thesis using a0 b c d e by simp
qed

subsection \<open>Rendering\<close>

lemma sub_first_missing:
  "Invalid \<notin> set ts \<Longrightarrow> find (\<lambda>k. m k = None) (names ts) = Some k \<Longrightarrow> sub m ts = Inl (KeyError k)"
proof (induction ts)
  case Nil
  then show ?case by simp
next
  case (Cons t ts)
  then show ?case by (cases t) (auto split: option.splits if_splits)
qed

lemma references_SYSTEMD:
  "references SYSTEMD_TEMPLATE =
     [''service_name'', ''user'', ''group'', ''project_path'', ''exec_start'', ''venv_path'',
      ''PATH'', ''environment_vars'']"
  by code_simp

lemma references_NGINX: "references NGINX_TEMPLATE = [''domain'', ''port'', ''host'', ''remote_addr'', ''proxy_add_x_forwarded_for'', ''scheme'']"
  by code_simp

lemma references_NGINX_SSL: "references NGINX_SSL_TEMPLATE = [''domain'', ''domain'', ''request_uri'', ''domain'', ''domain'', ''domain'', ''port'', ''host'', ''remote_addr'', ''proxy_add_x_forwarded_for'', ''scheme'']"
  by code_simp

lemma references_NGINX_FRONTEND: "references NGINX_FRONTEND_TEMPLATE = [''domain'', ''api_url_prefix'', ''port'', ''api_url_prefix'', ''host'', ''remote_addr'', ''proxy_add_x_forwarded_for'', ''scheme'', ''frontend_url_prefix'', ''frontend_path'', ''uri'', ''uri'', ''frontend_url_prefix'']"
  by code_simp

lemma references_NGINX_FRONTEND_SSL: "references NGINX_FRONTEND_SSL_TEMPLATE = [''domain'', ''domain'', ''request_uri'', ''domain'', ''domain'', ''domain'', ''api_url_prefix'', ''port'', ''api_url_prefix'', ''host'', ''remote_addr'', ''proxy_add_x_forwarded_for'', ''scheme'', ''frontend_url_prefix'', ''frontend_path'', ''uri'', ''uri'', ''frontend_url_prefix'']"
  by code_simp

lemma valid_SYSTEMD: "Invalid \<notin> set (scan SYSTEMD_TEMPLATE)"
  by code_simp
lemma valid_NGINX: "Invalid \<notin> set (scan NGINX_TEMPLATE)"
  by code_simp
lemma valid_NGINX_SSL: "Invalid \<notin> set (scan NGINX_SSL_TEMPLATE)"
  by code_simp
lemma valid_NGINX_FRONTEND: "Invalid \<notin> set (scan NGINX_FRONTEND_TEMPLATE)"
  by code_simp
lemma valid_NGINX_FRONTEND_SSL: "Invalid \<notin> set (scan NGINX_FRONTEND_SSL_TEMPLATE)"
  by code_simp

lemma valid_templates: "Invalid \<notin> set (scan (template_text t))"
  by (cases t) (simp_all add: valid_SYSTEMD valid_NGINX valid_NGINX_SSL valid_NGINX_FRONTEND valid_NGINX_FRONTEND_SSL)

lemma sub_missing_key:
  assumes "Invalid \<notin> set ts" and "k \<in> set (names ts)" and "m k = None"
  shows "\<exists>k'. sub m ts = Inl (KeyError k') \<and> m k' = None \<and> k' \<in> set (names ts)"
proof -
  from assms(2,3) obtain k' where f: "find (\<lambda>k. m k = None) (names ts) = Some k'"
    by (cases "find (\<lambda>k. m k = None) (names ts)") (auto simp: find_None_iff)
  then have "m k' = None \<and> k' \<in> set (names ts)"
    by (auto simp: find_Some_iff)
  then show ?thesis
    using sub_first_missing [OF assms(1) f] by blast
qed


text \<open>
  For a template of any text, a key that is referred to and not supplied makes the
  substitution raise; the exception is a \<^verbatim>\<open>KeyError\<close> on such a key unless an
  ill-formed placeholder stands before it. None of the five templates has one.
\<close>

lemma sub_never_partial:
  assumes "k \<in> set (names ts)" and "m k = None"
  shows "sub m ts = Inl InvalidPlaceholder \<or> (\<exists>k'. sub m ts = Inl (KeyError k') \<and> m k' = None)"
  using assms
proof (induction ts)
  case Nil
  then show ?case by simp
next
  case (Cons t ts)
  then show ?case
    by (cases t) (auto split: option.splits sum.splits)
qed

text \<open>
  C3. For each of the five templates and every substitution map: if the template refers
  to a key the map does not supply, rendering raises \<^verbatim>\<open>KeyError\<close> on a key that is
  referred to and not supplied, and so returns no text at all; an installation of the
  rendered text that follows does not take place, and the run is left as it was.
\<close>

theorem render_missing_key:
  assumes "k \<in> set (references (template_text t))" and "m k = None"
  shows "\<exists>k'. render t m = Inl (KeyError k') \<and> m k' = None
              \<and> k' \<in> set (references (template_text t))
              \<and> and_then (lift (render t m)) (\<lambda>content. install_file h content target) s
                  = (Inl (KeyError k'), s)"
proof -
  obtain k' where "render t m = Inl (KeyError k')" and "m k' = None"
    and "k' \<in> set (references (template_text t))"
    using sub_missing_key [OF valid_templates, of k t m] assms
    by (auto simp: render_def substitute_def references_def)
  then show ?thesis
    by (auto simp: and_then_def lift_def)
qed


theorem render_missing_key_witness:
  "''host'' \<in> set (references (template_text Nginx))
   \<and> [''domain'' \<mapsto> ''example.com'', ''port'' \<mapsto> ''8000''] ''host'' = None
   \<and> (\<exists>k'. render Nginx [''domain'' \<mapsto> ''example.com'', ''port'' \<mapsto> ''8000''] = Inl (KeyError k')
            \<and> [''domain'' \<mapsto> ''example.com'', ''port'' \<mapsto> ''8000''] k' = None
            \<and> k' \<in> set (references (template_text Nginx)))
   \<and> render Nginx [''domain'' \<mapsto> ''example.com'', ''port'' \<mapsto> ''8000''] = Inl (KeyError ''host'')"
proof -
  have a: "''host'' \<in> set (references (template_text Nginx))"
    by (simp add: references_NGINX)
  have b: "[''domain'' \<mapsto> ''example.com'', ''port'' \<mapsto> ''8000''] ''host'' = None"
    by simp
  have c: "render Nginx [''domain'' \<mapsto> ''example.com'', ''port'' \<mapsto> ''8000''] = Inl (KeyError ''host'')"
    unfolding render_def substitute_def template_text.simps
    by (rule sub_first_missing [OF valid_NGINX])
       (simp add: references_NGINX [unfolded references_def])
  show ?thesis
    using a b c
      render_missing_key [of "''host''" Nginx "[''domain'' \<mapsto> ''example.com'', ''port'' \<mapsto> ''8000'']"]
    by blast
qed


lemma unit_substitution:
  "substitute SYSTEMD_TEMPLATE
     [''service_name'' \<mapsto> a, ''user'' \<mapsto> b, ''group'' \<mapsto> c, ''project_path'' \<mapsto> d,
      ''exec_start'' \<mapsto> e, ''venv_path'' \<mapsto> f, ''environment_vars'' \<mapsto> g]
   = Inl (KeyError ''PATH'')"
  unfolding substitute_def
  by (rule sub_first_missing [OF valid_SYSTEMD])
     (simp add: references_SYSTEMD [unfolded references_def])

lemma systemd_content_error:
  "systemd_content rq a u g env =
     Inl (if framework rq = ''fastapi'' \<or> framework rq = ''flask'' \<or> framework rq = ''django''
          then KeyError ''PATH''
          else ValueError (''Unsupported framework: '' @ framework rq))"
  by (simp add: systemd_content_def get_exec_start_def unit_substitution Let_def)


lemma deploy_api_unfold:
  "deploy_api h rq s =
     (let a = abspath h (project_path rq) (fst s) in
      if \<not> isdir h a (fst s) then (Inl (ValueError (''Project path does not exist: '' @ a)), s)
      else case run_command h ''whoami'' s of
             (Inl e, s1) \<Rightarrow> (Inl e, s1)
           | (Inr user, s1) \<Rightarrow>
               (case run_command h ''id -gn'' s1 of
                  (Inl e, s2) \<Rightarrow> (Inl e, s2)
                | (Inr grp, s2) \<Rightarrow>
                    (case environment_of h a (env_file rq) s2 of
                       (Inl e, s3) \<Rightarrow> (Inl e, s3)
                     | (Inr v, s3) \<Rightarrow> (Inl (if framework rq = ''fastapi'' \<or> framework rq = ''flask'' \<or> framework rq = ''django''
          then KeyError ''PATH''
          else ValueError (''Unsupported framework: '' @ framework rq)), s3))))"
  by (simp add: deploy_api_def and_then_def query_def lift_def raise_def systemd_content_error
           Let_def split: prod.splits sum.splits)

lemma written_append: "written (xs @ ys) = written xs @ written ys"
  by (induction xs rule: written.induct) auto

lemma commands_append: "commands (xs @ ys) = commands xs @ commands ys"
  by (induction xs rule: commands.induct) auto

lemma load_env_error: "load_env ls acc = Inl e \<Longrightarrow> e = UnpackError"
  by (induction ls arbitrary: acc) (auto split: if_splits list.splits)

lemma environment_of_result:
  "environment_of h a f s = (r, s') \<Longrightarrow> s' = s \<and> (r = Inl UnpackError \<or> (\<exists>v. r = Inr v))"
  using load_env_error
  by (cases r) (auto simp: environment_of_def and_then_def query_def lift_def return_def
                   split: if_splits)

lemma run_command_result:
  "run_command h c s = (r, s') \<Longrightarrow>
     snd s' = snd s @ [Ran c (fst (shell h c (fst s)))]
     \<and> (if returncode (fst (shell h c (fst s))) \<noteq> 0
         then r = Inl (RuntimeError (''Command failed: '' @ stderr (fst (shell h c (fst s)))))
         else r = Inr (strip (stdout (fst (shell h c (fst s))))))"
  by (auto simp: run_command_def Let_def split: prod.splits if_splits)

lemma deploy_api_outcome:
  "\<exists>e s'. deploy_api h rq s = (Inl e, s')
      \<and> written (snd s') = written (snd s)
      \<and> (\<exists>cs. commands (snd s') = commands (snd s) @ cs
               \<and> (cs = [] \<or> cs = [''whoami''] \<or> cs = [''whoami'', ''id -gn'']))
      \<and> (e = (if framework rq = ''fastapi'' \<or> framework rq = ''flask'' \<or> framework rq = ''django''
               then KeyError ''PATH''
               else ValueError (''Unsupported framework: '' @ framework rq))
          \<or> e = ValueError (''Project path does not exist: '' @ abspath h (project_path rq) (fst s))
          \<or> (\<exists>msg. e = RuntimeError msg)
          \<or> e = UnpackError)"
proof -
  let ?a = "abspath h (project_path rq) (fst s)"
  show ?thesis
  proof (cases "isdir h ?a (fst s)")
    case False
    then show ?thesis by (simp add: deploy_api_unfold)
  next
    case True
    obtain r1 s1 where 1: "run_command h ''whoami'' s = (r1, s1)"
      by (cases "run_command h ''whoami'' s") auto
    note f1 = run_command_result [OF 1]
    show ?thesis
    proof (cases r1)
      case (Inl e)
      then show ?thesis using True 1 f1
        by (auto simp: deploy_api_unfold written_append commands_append split: if_splits)
    next
      case (Inr user)
      obtain r2 s2 where 2: "run_command h ''id -gn'' s1 = (r2, s2)"
        by (cases "run_command h ''id -gn'' s1") auto
      note f2 = run_command_result [OF 2]
      show ?thesis
      proof (cases r2)
        case (Inl e)
        then show ?thesis using True 1 f1 2 f2 \<open>r1 = Inr user\<close>
          by (auto simp: deploy_api_unfold written_append commands_append split: if_splits)
      next
        case (Inr grp)
        obtain r3 s3 where 3: "environment_of h ?a (env_file rq) s2 = (r3, s3)"
          by (cases "environment_of h ?a (env_file rq) s2") auto
        note f3 = environment_of_result [OF 3]
        show ?thesis using True 1 f1 2 f2 3 f3 \<open>r1 = Inr user\<close> \<open>r2 = Inr grp\<close>
          by (cases r3) (auto simp: deploy_api_unfold written_append commands_append split: if_splits)
      qed
    qed
  qed
qed

text \<open>
  C4. The unit template refers to \<open>PATH\<close>, which the substitution map of
  \<^verbatim>\<open>deploy_api\<close> never holds: whatever the seven values are, rendering the unit raises
  \<^verbatim>\<open>KeyError\<close> on \<open>PATH\<close>; so does the unit composer for a supported framework;
  and every call of \<^verbatim>\<open>deploy_api\<close> ends in an exception with no file written and no
  command run beyond \<^verbatim>\<open>whoami\<close> and \<^verbatim>\<open>id -gn\<close>.
\<close>

theorem unit_render_raises_on_PATH:
  "substitute SYSTEMD_TEMPLATE
     [''service_name'' \<mapsto> sn, ''user'' \<mapsto> u, ''group'' \<mapsto> g, ''project_path'' \<mapsto> a,
      ''exec_start'' \<mapsto> x, ''venv_path'' \<mapsto> v, ''environment_vars'' \<mapsto> env]
     = Inl (KeyError ''PATH'')
   \<and> (framework rq = ''fastapi'' \<or> framework rq = ''flask'' \<or> framework rq = ''django''
        \<longrightarrow> systemd_content rq a u g env = Inl (KeyError ''PATH''))
   \<and> (\<exists>e s'. deploy_api h rq s = (Inl e, s')
         \<and> written (snd s') = written (snd s)
         \<and> (\<exists>cs. commands (snd s') = commands (snd s) @ cs
                  \<and> (cs = [] \<or> cs = [''whoami''] \<or> cs = [''whoami'', ''id -gn''])))"
proof -
  have 1: "substitute SYSTEMD_TEMPLATE
     [''service_name'' \<mapsto> sn, ''user'' \<mapsto> u, ''group'' \<mapsto> g, ''project_path'' \<mapsto> a,
      ''exec_start'' \<mapsto> x, ''venv_path'' \<mapsto> v, ''environment_vars'' \<mapsto> env]
     = Inl (KeyError ''PATH'')"
    by (rule unit_substitution)
  have 2: "framework rq = ''fastapi'' \<or> framework rq = ''flask'' \<or> framework rq = ''django''
        \<longrightarrow> systemd_content rq a u g env = Inl (KeyError ''PATH'')"
    by (simp add: systemd_content_error)
  have 3: "\<exists>e s'. deploy_api h rq s = (Inl e, s')
         \<and> written (snd s') = written (snd s)
         \<and> (\<exists>cs. commands (snd s') = commands (snd s) @ cs
                  \<and> (cs = [] \<or> cs = [''whoami''] \<or> cs = [''whoami'', ''id -gn'']))"
    using deploy_api_outcome [of h rq s] by blast
  show ?thesis using 1 2 3 by blast
qed

lemma example_run:
  "deploy_api quiet_host example_request ((), []) =
     (Inl (KeyError ''PATH''),
      ((), [Ran ''whoami'' \<lparr>returncode = 0, stdout = ''deploy\<newline>'', stderr = []\<rparr>,
            Ran ''id -gn'' \<lparr>returncode = 0, stdout = ''deploy\<newline>'', stderr = []\<rparr>]))"
  by (simp add: deploy_api_unfold run_command_def environment_of_def and_then_def query_def return_def
        quiet_host_def example_request_def truthy_def)

theorem unit_render_raises_on_PATH_witness:
  "framework example_request = ''fastapi''
   \<and> systemd_content example_request ''/srv/app'' ''deploy'' ''deploy'' [] = Inl (KeyError ''PATH'')
   \<and> fst (deploy_api quiet_host example_request ((), [])) = Inl (KeyError ''PATH'')
   \<and> written (snd (snd (deploy_api quiet_host example_request ((), [])))) = []
   \<and> commands (snd (snd (deploy_api quiet_host example_request ((), [])))) = [''whoami'', ''id -gn'']"
proof -
  have a: "framework example_request = ''fastapi''"
    by (simp add: example_request_def)
  then have b: "systemd_content example_request ''/srv/app'' ''deploy'' ''deploy'' [] = Inl (KeyError ''PATH'')"
    using unit_render_raises_on_PATH [of _ "''deploy''" "''deploy''" "''/srv/app''" _ _ "[]" example_request]
    by blast
  show ?thesis using a b by (simp add: example_run)
qed


text \<open>
  C5. For a framework other than fastapi, flask and django the launch command selector
  raises \<^verbatim>\<open>ValueError\<close> with the message \<open>Unsupported framework\<close>, so does the unit
  composer, and \<^verbatim>\<open>deploy_api\<close> ends in an exception with no file written and no
  command run beyond \<^verbatim>\<open>whoami\<close> and \<^verbatim>\<open>id -gn\<close>; the exception is that one
  unless an earlier step has failed.
\<close>

theorem unsupported_framework_rejected:
  assumes "framework rq \<noteq> ''fastapi''" and "framework rq \<noteq> ''flask''"
    and "framework rq \<noteq> ''django''"
  shows "get_exec_start (framework rq) project venv p w t
           = Inl (ValueError (''Unsupported framework: '' @ framework rq))
    \<and> systemd_content rq a u g env = Inl (ValueError (''Unsupported framework: '' @ framework rq))
    \<and> (\<exists>e s'. deploy_api h rq s = (Inl e, s')
          \<and> written (snd s') = written (snd s)
          \<and> (\<exists>cs. commands (snd s') = commands (snd s) @ cs
                   \<and> (cs = [] \<or> cs = [''whoami''] \<or> cs = [''whoami'', ''id -gn'']))
          \<and> (e = ValueError (''Unsupported framework: '' @ framework rq)
              \<or> e = ValueError (''Project path does not exist: ''
                                 @ abspath h (project_path rq) (fst s))
              \<or> (\<exists>msg. e = RuntimeError msg)
              \<or> e = UnpackError))"
proof -
  have 1: "get_exec_start (framework rq) project venv p w t
           = Inl (ValueError (''Unsupported framework: '' @ framework rq))"
    using assms by (simp add: get_exec_start_def)
  have 2: "systemd_content rq a u g env = Inl (ValueError (''Unsupported framework: '' @ framework rq))"
    using assms by (simp add: systemd_content_error)
  have 3: "\<exists>e s'. deploy_api h rq s = (Inl e, s')
          \<and> written (snd s') = written (snd s)
          \<and> (\<exists>cs. commands (snd s') = commands (snd s) @ cs
                   \<and> (cs = [] \<or> cs = [''whoami''] \<or> cs = [''whoami'', ''id -gn'']))
          \<and> (e = ValueError (''Unsupported framework: '' @ framework rq)
              \<or> e = ValueError (''Project path does not exist: ''
                                 @ abspath h (project_path rq) (fst s))
              \<or> (\<exists>msg. e = RuntimeError msg)
              \<or> e = UnpackError)"
    using deploy_api_outcome [of h rq s] assms by simp
  show ?thesis using 1 2 3 by blast
qed

theorem unsupported_framework_rejected_witness:
  "framework (example_request\<lparr>framework := ''rails''\<rparr>) \<noteq> ''fastapi''
   \<and> framework (example_request\<lparr>framework := ''rails''\<rparr>) \<noteq> ''flask''
   \<and> framework (example_request\<lparr>framework := ''rails''\<rparr>) \<noteq> ''django''
   \<and> get_exec_start ''rails'' ''/srv/app'' ''/srv/app/venv'' 8000 2 120
       = Inl (ValueError ''Unsupported framework: rails'')
   \<and> deploy_api quiet_host (example_request\<lparr>framework := ''rails''\<rparr>) ((), []) =
     (Inl (ValueError ''Unsupported framework: rails''),
      ((), [Ran ''whoami'' \<lparr>returncode = 0, stdout = ''deploy\<newline>'', stderr = []\<rparr>,
            Ran ''id -gn'' \<lparr>returncode = 0, stdout = ''deploy\<newline>'', stderr = []\<rparr>]))"
proof -
  let ?rq = "example_request\<lparr>framework := ''rails''\<rparr>"
  have a: "framework ?rq \<noteq> ''fastapi''" "framework ?rq \<noteq> ''flask''" "framework ?rq \<noteq> ''django''"
    by simp_all
  have b: "get_exec_start (framework ?rq) ''/srv/app'' ''/srv/app/venv'' 8000 2 120
       = Inl (ValueError (''Unsupported framework: '' @ framework ?rq))"
    using unsupported_framework_rejected [OF a] by blast
  have c: "deploy_api quiet_host ?rq ((), []) =
     (Inl (ValueError ''Unsupported framework: rails''),
      ((), [Ran ''whoami'' \<lparr>returncode = 0, stdout = ''deploy\<newline>'', stderr = []\<rparr>,
            Ran ''id -gn'' \<lparr>returncode = 0, stdout = ''deploy\<newline>'', stderr = []\<rparr>]))"
    by (simp add: deploy_api_unfold run_command_def environment_of_def and_then_def query_def return_def
        quiet_host_def example_request_def truthy_def)
  show ?thesis using a b c by simp
qed

subsection \<open>The argument parser\<close>

lemma take_action_framework:
  assumes "take_action to_int occurrence ns = Inr ns'"
    and "ns_framework ns = None \<or> (\<exists>fw. ns_framework ns = Some fw \<and> fw \<in> set framework_choices)"
  shows "ns_framework ns' = None \<or> (\<exists>fw. ns_framework ns' = Some fw \<and> fw \<in> set framework_choices)"
  using assms
  by (cases occurrence; cases "snd occurrence")
     (auto simp: take_action_def split: if_splits option.splits)

lemma take_actions_framework:
  assumes "take_actions to_int occurrences ns = Inr ns'"
    and "ns_framework ns = None \<or> (\<exists>fw. ns_framework ns = Some fw \<and> fw \<in> set framework_choices)"
  shows "ns_framework ns' = None \<or> (\<exists>fw. ns_framework ns' = Some fw \<and> fw \<in> set framework_choices)"
  using assms
proof (induction occurrences arbitrary: ns)
  case Nil
  then show ?case by simp
next
  case (Cons occurrence rest)
  then obtain ns1 where 1: "take_action to_int occurrence ns = Inr ns1"
    and 2: "take_actions to_int rest ns1 = Inr ns'"
    by (auto split: sum.splits)
  show ?case
    using Cons.IH [OF 2] take_action_framework [OF 1] Cons.prems(2) by blast
qed

lemma parse_args_framework:
  assumes "parse_args to_int occurrences = Inr rq"
  shows "framework rq \<in> set framework_choices"
proof -
  from assms obtain ns where ns: "take_actions to_int occurrences defaults = Inr ns"
    and fw: "ns_framework ns = Some (framework rq)"
    by (auto simp: parse_args_def split: sum.splits option.splits)
  have "ns_framework defaults = None"
    by (simp add: defaults_def)
  then show ?thesis
    using take_actions_framework [OF ns] fw by auto
qed

text \<open>
  C9. A request that the argument parser returns has one of the three frameworks of the
  choice list, so the launch command selector returns a command for it and never raises
  its \<^verbatim>\<open>ValueError\<close>.
\<close>

theorem accepted_framework_is_supported:
  assumes "parse_args to_int occurrences = Inr rq"
  shows "(framework rq = ''flask'' \<or> framework rq = ''fastapi'' \<or> framework rq = ''django'')
     \<and> (\<exists>exec_start. get_exec_start (framework rq) project venv (port rq) (workers rq) (timeout rq)
                        = Inr exec_start)
     \<and> get_exec_start (framework rq) project venv (port rq) (workers rq) (timeout rq)
          \<noteq> Inl (ValueError (''Unsupported framework: '' @ framework rq))"
proof -
  have "framework rq = ''flask'' \<or> framework rq = ''fastapi'' \<or> framework rq = ''django''"
    using parse_args_framework [OF assms] by (simp add: framework_choices_def)
  then show ?thesis
    by (auto simp: get_exec_start_def Let_def)
qed

lemma example_parse: "parse_args example_int example_command_line = Inr example_request"
  by (simp add: parse_args_def example_command_line_def example_int_def take_action_def
        defaults_def framework_choices_def example_request_def)

theorem accepted_framework_is_supported_witness:
  "parse_args example_int example_command_line = Inr example_request
   \<and> framework example_request = ''fastapi''
   \<and> (\<exists>exec_start. get_exec_start (framework example_request) ''/srv/app'' ''/srv/app/venv''
                       (port example_request) (workers example_request) (timeout example_request)
                        = Inr exec_start)"
  using accepted_framework_is_supported [OF example_parse, of "''/srv/app''" "''/srv/app/venv''"]
    example_parse
  by (simp add: example_request_def)

subsection \<open>The proxy configuration\<close>

lemma nginx_content_error:
  "nginx_content rq d ssl_exists frontend =
     Inl (KeyError (if ssl_exists then ''request_uri'' else ''host''))"
proof (cases frontend)
  case None
  show ?thesis
  proof (cases ssl_exists)
    case True
    show ?thesis unfolding nginx_content_def substitute_def None
      using True
      by simp (rule sub_first_missing [OF valid_NGINX_SSL],
               simp add: references_NGINX_SSL [unfolded references_def])
  next
    case False
    show ?thesis unfolding nginx_content_def substitute_def None
      using False
      by simp (rule sub_first_missing [OF valid_NGINX],
               simp add: references_NGINX [unfolded references_def])
  qed
next
  case (Some f)
  show ?thesis
  proof (cases ssl_exists)
    case True
    show ?thesis unfolding nginx_content_def substitute_def Some
      using True
      by simp (rule sub_first_missing [OF valid_NGINX_FRONTEND_SSL],
               simp add: references_NGINX_FRONTEND_SSL [unfolded references_def])
  next
    case False
    show ?thesis unfolding nginx_content_def substitute_def Some
      using False
      by simp (rule sub_first_missing [OF valid_NGINX_FRONTEND],
               simp add: references_NGINX_FRONTEND [unfolded references_def])
  qed
qed

text \<open>
  C1. The four templates of the proxy refer to variables of nginx (\<open>$host\<close>,
  \<open>$request_uri\<close>, ...) that the substitution map does not hold: for each of the four
  combinations of certificate and frontend the rendering of the example request raises
  \<^verbatim>\<open>KeyError\<close> and returns no configuration text.
\<close>

theorem nginx_rendering_fails:
  "nginx_content example_request ''example.com'' False None = Inl (KeyError ''host'')
   \<and> nginx_content example_request ''example.com'' True None = Inl (KeyError ''request_uri'')
   \<and> nginx_content example_request ''example.com'' False (Some ''/srv/app/dist'')
       = Inl (KeyError ''host'')
   \<and> nginx_content example_request ''example.com'' True (Some ''/srv/app/dist'')
       = Inl (KeyError ''request_uri'')"
  by (simp add: nginx_content_error)

subsection \<open>Running twice\<close>

text \<open>
  C8. On the example host, a first and a second run of \<^verbatim>\<open>deploy_api\<close> on the example
  request both end in \<^verbatim>\<open>KeyError\<close> on \<open>PATH\<close> after \<^verbatim>\<open>whoami\<close> and
  \<^verbatim>\<open>id -gn\<close>; no file is written in either.
\<close>

theorem second_run_writes_nothing:
  "deploy_api quiet_host example_request ((), []) =
     (Inl (KeyError ''PATH''),
      ((), [Ran ''whoami'' \<lparr>returncode = 0, stdout = ''deploy\<newline>'', stderr = []\<rparr>,
            Ran ''id -gn'' \<lparr>returncode = 0, stdout = ''deploy\<newline>'', stderr = []\<rparr>]))
   \<and> deploy_api quiet_host example_request
        (snd (deploy_api quiet_host example_request ((), []))) =
     (Inl (KeyError ''PATH''),
      ((), [Ran ''whoami'' \<lparr>returncode = 0, stdout = ''deploy\<newline>'', stderr = []\<rparr>,
            Ran ''id -gn'' \<lparr>returncode = 0, stdout = ''deploy\<newline>'', stderr = []\<rparr>,
            Ran ''whoami'' \<lparr>returncode = 0, stdout = ''deploy\<newline>'', stderr = []\<rparr>,
            Ran ''id -gn'' \<lparr>returncode = 0, stdout = ''deploy\<newline>'', stderr = []\<rparr>]))
   \<and> written (snd (snd (deploy_api quiet_host example_request
        (snd (deploy_api quiet_host example_request ((), [])))))) = []"
  by (simp add: deploy_api_unfold run_command_def environment_of_def and_then_def query_def return_def
        quiet_host_def example_request_def truthy_def)

subsection \<open>Failures\<close>

lemma clean_simps [simp]:
  "clean []" "clean (ev # evs) = (failure_of ev = None \<and> clean evs)"
  "clean (xs @ ys) = (clean xs \<and> clean ys)"
  by (simp_all add: clean_def)






































end
